theory Spec2Isabelle
  imports Main "HOL-Library.Sublist" "HOL-Library.DAList"
begin

section \<open>JavaScript values\<close>

text \<open>
  The container is type-erased (\<^verbatim>\<open>userValue: any\<close>, \<^verbatim>\<open>LooseObject\<close>), so the model
  needs a universe of JavaScript values. Primitives are kept as they are; every object
  (class instance, object literal, function, \<^verbatim>\<open>Date\<close>) is a reference into a heap, so
  that two values are the same object exactly when they are the same reference.
  Numbers are the integers and \<^verbatim>\<open>NaN\<close> (\<^verbatim>\<open>-0\<close> is identified with \<^verbatim>\<open>0\<close>; a
  non-integral or infinite number behaves, for everything below, like an integer that is
  no valid array length). Symbols and big integers are left out.
\<close>

type_synonym ref = nat

datatype jsval =
    JUndefined
  | JNull
  | JBool bool
  | JNum int
  | JNaN
  | JStr string
  | JRef ref

text \<open>\<^verbatim>\<open>ToBoolean\<close>: what \<^verbatim>\<open>if (matchedProvider)\<close> tests.\<close>

fun truthy :: "jsval \<Rightarrow> bool" where
  "truthy JUndefined = False"
| "truthy JNull = False"
| "truthy (JBool b) = b"
| "truthy (JNum n) = (n \<noteq> 0)"
| "truthy JNaN = False"
| "truthy (JStr s) = (s \<noteq> [])"
| "truthy (JRef r) = True"

text \<open>
  What a \<^verbatim>\<open>throw\<close> carries: \<^verbatim>\<open>new Error(message)\<close>; a \<^verbatim>\<open>TypeError\<close> of the
  engine (calling something that is no function, assigning to a property that cannot be
  written); a \<^verbatim>\<open>RangeError\<close> of the engine (\<^verbatim>\<open>toISOString\<close> of an invalid date);
  or any value thrown by a constructor of the host program. The messages of the engine's
  errors are engine-specific and not modelled.
\<close>

datatype error = Error string | TypeError | RangeError | Thrown jsval

section \<open>Objects\<close>

text \<open>
  The fields of a heap object: keys with their values. Assigning to a key that exists
  replaces the value in place; assigning to a new key appends it
  (the list operation \<open>AList.update\<close>).
\<close>

type_synonym props = "(string \<times> jsval) list"

text \<open>
  Heap objects: an instance of a class (the class name and the instance's own fields,
  which are ordinary writable properties; an object literal is an instance of
  \<^verbatim>\<open>Object\<close>), a function, or a \<^verbatim>\<open>Date\<close>. The only function values the development
  needs are zero-parameter arrow functions \<^verbatim>\<open>() => v\<close>. A valid \<^verbatim>\<open>Date\<close> is
  represented by the string its \<^verbatim>\<open>toISOString()\<close> returns; \<open>DateObj None\<close> is an
  invalid date (its time value is \<^verbatim>\<open>NaN\<close>, as of \<^verbatim>\<open>new Date(NaN)\<close>).
\<close>

datatype func = Arrow jsval

datatype object =
    Instance string props
  | Function func
  | DateObj "string option"

text \<open>
  \<^verbatim>\<open>private _providers: LooseObject = {}\<close> is a plain object used as a dictionary: its
  own enumerable string-keyed properties, in the order they were created (JavaScript
  lists canonical numeric keys before the others, which makes no difference below: the
  one traversal, by \<^verbatim>\<open>find\<close>, looks for a single key), and its prototype. An object
  holds at most one property per key, so the entries form a list with pairwise distinct
  keys. The prototype is \<^verbatim>\<open>Object.prototype\<close> at first; the assignment
  \<^verbatim>\<open>_providers['__proto__'] = value\<close> can replace it by a heap object or by
  \<^verbatim>\<open>null\<close> (see \<open>put_prop\<close> below).
\<close>

datatype prototype = ObjectPrototype | NullPrototype | ProtoRef ref

record LooseObject =
  own :: "(string, jsval) alist"
  proto :: prototype

abbreviation entries :: "LooseObject \<Rightarrow> props" where
  "entries obj \<equiv> DAList.impl_of (own obj)"

definition empty_object :: LooseObject where
  "empty_object = \<lparr>own = DAList.empty, proto = ObjectPrototype\<rparr>"

section \<open>The world\<close>

text \<open>
  All mutable state of the program: the \<^verbatim>\<open>_providers\<close> object of every
  \<^verbatim>\<open>Container\<close> instance (by the instance's reference), the heap of objects with its
  allocation counter, the log of calls made to function objects (what a test spy
  records: the function and its arguments), and the clock \<^verbatim>\<open>Date.now()\<close> reads,
  given as the ISO rendering of a \<^verbatim>\<open>Date\<close> built from it.
\<close>

record world =
  providers :: "ref \<Rightarrow> LooseObject"
  heap :: "ref \<Rightarrow> object option"
  next_ref :: ref
  calls :: "(ref \<times> jsval list) list"
  clock :: string

definition init_world :: "string \<Rightarrow> world" where
  "init_world clk =
     \<lparr>providers = (\<lambda>c. empty_object), heap = (\<lambda>r. None), next_ref = 0,
      calls = [], clock = clk\<rparr>"

definition alloc :: "object \<Rightarrow> world \<Rightarrow> ref \<times> world" where
  "alloc ob w =
     (let r = next_ref w
      in (r, w\<lparr>heap := (heap w)(r := Some ob), next_ref := Suc r\<rparr>))"

section \<open>Assignment to a key of the providers object\<close>

text \<open>
  \<^verbatim>\<open>_providers[key] = value\<close>, in strict mode (the bodies of the methods of a class
  are strict code). When the object has an own property of that name, its value is
  replaced. Otherwise the prototype chain decides:
  \<^item> nothing of that name is inherited, or a writable data property is (a field of the
    prototype object, a method of its class or of \<^verbatim>\<open>Object.prototype\<close>): the
    assignment creates an own property;
  \<^item> a property that cannot be written is inherited: the assignment throws a
    \<^verbatim>\<open>TypeError\<close> and the object is unchanged. Such are an accessor with a getter
    and no setter (what \<^verbatim>\<open>Inject\<close> installs on the prototype of a class: in the
    repository, \<^verbatim>\<open>timeService\<close> of \<^verbatim>\<open>Consumer\<close>), the properties \<^verbatim>\<open>length\<close> and
    \<^verbatim>\<open>name\<close> of a function, which are not writable, and \<^verbatim>\<open>caller\<close> and
    \<^verbatim>\<open>arguments\<close> of \<^verbatim>\<open>Function.prototype\<close>, whose setter throws;
  \<^item> the key is \<^verbatim>\<open>__proto__\<close> and the chain reaches \<^verbatim>\<open>Object.prototype\<close>, as the
    chain of every heap object does: the inherited setter replaces the prototype when
    the value is an object or \<^verbatim>\<open>null\<close>, does nothing otherwise, and creates no
    own property. Once the prototype is \<^verbatim>\<open>null\<close> there is no setter any more and
    \<^verbatim>\<open>__proto__\<close> is a key like any other.

  Of the classes, \<^verbatim>\<open>Consumer\<close> is the one that declares a property decorated with
  \<^verbatim>\<open>Inject\<close>; instances of other classes inherit methods only. No object of this
  universe carries a setter other than the ones named; a prototype with a setter of
  its own would run it and create no entry. The statements below that say what a write
  stores are made for a providers object whose prototype is still
  \<^verbatim>\<open>Object.prototype\<close>, where none of this can occur.
\<close>

datatype slot = Creates | Rejects | SetsPrototype

definition object_prototype_slot :: "string \<Rightarrow> slot" where
  "object_prototype_slot k = (if k = ''__proto__'' then SetsPrototype else Creates)"

definition inherited :: "world \<Rightarrow> prototype \<Rightarrow> string \<Rightarrow> slot" where
  "inherited w p k =
     (case p of
        ObjectPrototype \<Rightarrow> object_prototype_slot k
      | NullPrototype \<Rightarrow> Creates
      | ProtoRef r \<Rightarrow>
          (case heap w r of
             Some (Instance c fs) \<Rightarrow>
               if map_of fs k \<noteq> None then Creates
               else if c = ''Consumer'' \<and> k = ''timeService'' then Rejects
               else object_prototype_slot k
           | Some (Function f) \<Rightarrow>
               if k \<in> {''length'', ''name'', ''caller'', ''arguments''} then Rejects
               else object_prototype_slot k
           | Some (DateObj d) \<Rightarrow> object_prototype_slot k
           | None \<Rightarrow> object_prototype_slot k))"

definition put_prop :: "world \<Rightarrow> LooseObject \<Rightarrow> string \<Rightarrow> jsval \<Rightarrow> error + LooseObject" where
  "put_prop w obj k v =
     (if map_of (entries obj) k \<noteq> None then Inr (obj\<lparr>own := DAList.update k v (own obj)\<rparr>)
      else
        (case inherited w (proto obj) k of
           Creates \<Rightarrow> Inr (obj\<lparr>own := DAList.update k v (own obj)\<rparr>)
         | Rejects \<Rightarrow> Inl TypeError
         | SetsPrototype \<Rightarrow>
             Inr (case v of
                    JRef r \<Rightarrow> obj\<lparr>proto := ProtoRef r\<rparr>
                  | JNull \<Rightarrow> obj\<lparr>proto := NullPrototype\<rparr>
                  | _ \<Rightarrow> obj)))"

section \<open>lodash \<^verbatim>\<open>find\<close> on the providers object\<close>

text \<open>
  \<^verbatim>\<open>find(this._providers, (_provider, key) => key === token)\<close>.

  lodash treats a collection as array-like when its \<^verbatim>\<open>length\<close> property (own or
  inherited) is a number that is a valid array length (\<^verbatim>\<open>isLength\<close>: an integer from
  0 to \<^verbatim>\<open>Number.MAX_SAFE_INTEGER\<close>) and the collection is no function. An array-like
  collection is iterated by index: the predicate receives the numbers 0, 1, ... as keys,
  \<^verbatim>\<open>key === token\<close> compares a number with a string and is false every time, and
  \<^verbatim>\<open>find\<close> returns \<^verbatim>\<open>undefined\<close>. Any other object is iterated over its own
  enumerable keys, and \<^verbatim>\<open>find\<close> returns the value of the first key that satisfies
  the predicate, or \<^verbatim>\<open>undefined\<close>.
\<close>

definition isLength :: "jsval \<Rightarrow> bool" where
  "isLength v = (case v of JNum n \<Rightarrow> 0 \<le> n \<and> n \<le> 9007199254740991 | _ \<Rightarrow> False)"

text \<open>
  Reading \<^verbatim>\<open>length\<close> from a heap object: an own field of an instance (no class of the
  model declares a member of that name), or the number of parameters of a function.
\<close>

definition length_of :: "world \<Rightarrow> ref \<Rightarrow> jsval" where
  "length_of w r =
     (case heap w r of
        Some (Instance c fs) \<Rightarrow>
          (case map_of fs ''length'' of Some v \<Rightarrow> v | None \<Rightarrow> JUndefined)
      | Some (Function (Arrow v)) \<Rightarrow> JNum 0
      | Some (DateObj s) \<Rightarrow> JUndefined
      | None \<Rightarrow> JUndefined)"

definition get_length :: "world \<Rightarrow> LooseObject \<Rightarrow> jsval" where
  "get_length w obj =
     (case map_of (entries obj) ''length'' of
        Some v \<Rightarrow> v
      | None \<Rightarrow>
          (case proto obj of
             ObjectPrototype \<Rightarrow> JUndefined
           | NullPrototype \<Rightarrow> JUndefined
           | ProtoRef r \<Rightarrow> length_of w r))"

definition isArrayLike :: "world \<Rightarrow> LooseObject \<Rightarrow> bool" where
  "isArrayLike w obj = isLength (get_length w obj)"

definition lodash_find :: "world \<Rightarrow> LooseObject \<Rightarrow> string \<Rightarrow> jsval" where
  "lodash_find w obj tok =
     (if isArrayLike w obj then JUndefined
      else (case List.find (\<lambda>(key, prov). key = tok) (entries obj) of
              Some (key, prov) \<Rightarrow> prov
            | None \<Rightarrow> JUndefined))"

section \<open>Classes and \<^verbatim>\<open>new\<close>\<close>

text \<open>
  A \<^verbatim>\<open>LooseClass\<close> is a class constructible with no arguments: its name and its
  constructor body, which runs on the fresh \<^verbatim>\<open>this\<close> with whatever effects it has on
  the world, and either completes, or returns an object of its own choice, or throws.
  \<^verbatim>\<open>new target()\<close> allocates the instance, runs the body, and yields the instance, or
  the object the body returned, unless the body threw.
\<close>

datatype completion = Completes | Returns ref | Throws error

record LooseClass =
  cname :: string
  ctor :: "ref \<Rightarrow> world \<Rightarrow> completion \<times> world"

definition new_instance :: "LooseClass \<Rightarrow> world \<Rightarrow> (error + ref) \<times> world" where
  "new_instance target w =
     (let (r, w1) = alloc (Instance (cname target) []) w
      in (case ctor target r w1 of
            (Completes, w2) \<Rightarrow> (Inr r, w2)
          | (Returns r', w2) \<Rightarrow> (Inr r', w2)
          | (Throws e, w2) \<Rightarrow> (Inl e, w2)))"

section \<open>The container\<close>

record IContainerProvider =
  userValue :: jsval
  token :: string

text \<open>\<^verbatim>\<open>export const container = new Container()\<close>: the module-level singleton.\<close>

definition container :: ref where
  "container = 0"

text \<open>
  The methods take the receiver \<^verbatim>\<open>this\<close> (the reference of a \<^verbatim>\<open>Container\<close>
  instance) first. \<^verbatim>\<open>resolve\<close> only reads the world.
\<close>

definition resolve :: "ref \<Rightarrow> string \<Rightarrow> world \<Rightarrow> error + jsval" where
  "resolve this tok w =
     (let matchedProvider = lodash_find w (providers w this) tok
      in if truthy matchedProvider then Inr matchedProvider
         else Inl (Error (''No provider found for '' @ tok)))"

text \<open>
  \<^verbatim>\<open>container._providers[token] = new target()\<close>: the receiver is not used. The
  instance is constructed first; the assignment then writes to the singleton's object,
  in the state the constructor left it.
\<close>

definition reserve :: "ref \<Rightarrow> string \<Rightarrow> LooseClass \<Rightarrow> world \<Rightarrow> (error + unit) \<times> world" where
  "reserve this tok target w =
     (case new_instance target w of
        (Inl e, w1) \<Rightarrow> (Inl e, w1)
      | (Inr r, w1) \<Rightarrow>
          (case put_prop w1 (providers w1 container) tok (JRef r) of
             Inl e \<Rightarrow> (Inl e, w1)
           | Inr obj \<Rightarrow> (Inr (), w1\<lparr>providers := (providers w1)(container := obj)\<rparr>)))"

text \<open>\<^verbatim>\<open>this._providers[details.token] = details.userValue\<close>\<close>

definition provider :: "ref \<Rightarrow> IContainerProvider \<Rightarrow> world \<Rightarrow> (error + unit) \<times> world" where
  "provider this details w =
     (case put_prop w (providers w this) (token details) (userValue details) of
        Inl e \<Rightarrow> (Inl e, w)
      | Inr obj \<Rightarrow> (Inr (), w\<lparr>providers := (providers w)(this := obj)\<rparr>))"

section \<open>The decorators\<close>

text \<open>
  \<^verbatim>\<open>Inject(token)\<close> installs on the property the getter
  \<^verbatim>\<open>() => container.resolve(token)\<close>; \<open>Inject tok w\<close> is what reading the decorated
  property yields in the world \<open>w\<close>.
\<close>

definition Inject :: "string \<Rightarrow> world \<Rightarrow> error + jsval" where
  "Inject tok w = resolve container tok w"

text \<open>
  \<^verbatim>\<open>Injectable(token)\<close> applied to a class calls \<^verbatim>\<open>container.reserve(token, target)\<close>
  and returns nothing, so the class binding stays the class it was.
\<close>

definition Injectable :: "string \<Rightarrow> LooseClass \<Rightarrow> world \<Rightarrow> (error + unit) \<times> world" where
  "Injectable tok target w = reserve container tok target w"

text \<open>Consecutive reads of an \<^verbatim>\<open>Inject\<close>-decorated property, oldest first.\<close>

fun reads :: "nat \<Rightarrow> string \<Rightarrow> world \<Rightarrow> (error + jsval) list" where
  "reads 0 tok w = []"
| "reads (Suc n) tok w = Inject tok w # reads n tok w"

section \<open>\<^verbatim>\<open>TimeService\<close> and \<^verbatim>\<open>Consumer\<close>\<close>

text \<open>\<^verbatim>\<open>return new Date(Date.now())\<close>: a valid date.\<close>

definition getCurrentDate :: "world \<Rightarrow> (error + jsval) \<times> world" where
  "getCurrentDate w =
     (let (r, w1) = alloc (DateObj (Some (clock w))) w in (Inr (JRef r), w1))"

text \<open>Calling the value \<open>f\<close> with the arguments \<open>args\<close>; the call is logged.\<close>

definition invoke :: "jsval \<Rightarrow> jsval list \<Rightarrow> world \<Rightarrow> (error + jsval) \<times> world" where
  "invoke f args w =
     (case f of
        JRef fr \<Rightarrow>
          (case heap w fr of
             Some (Function (Arrow v)) \<Rightarrow> (Inr v, w\<lparr>calls := calls w @ [(fr, args)]\<rparr>)
           | _ \<Rightarrow> (Inl TypeError, w))
      | _ \<Rightarrow> (Inl TypeError, w))"

text \<open>
  The method call \<^verbatim>\<open>v.name()\<close> with no arguments, for the two method names the
  program calls (\<^verbatim>\<open>getCurrentDate\<close>, \<^verbatim>\<open>toISOString\<close>): an own field of an instance
  is called as a function; otherwise the method comes from the class
  (\<^verbatim>\<open>TimeService.prototype.getCurrentDate\<close>, \<^verbatim>\<open>Date.prototype.toISOString\<close>). No
  primitive value and no function has either method, so the call is a \<^verbatim>\<open>TypeError\<close>
  there. \<^verbatim>\<open>toISOString\<close> of an invalid date throws a \<^verbatim>\<open>RangeError\<close>.
\<close>

definition call_method :: "jsval \<Rightarrow> string \<Rightarrow> world \<Rightarrow> (error + jsval) \<times> world" where
  "call_method v name w =
     (case v of
        JRef r \<Rightarrow>
          (case heap w r of
             Some (Instance c fs) \<Rightarrow>
               (case map_of fs name of
                  Some f \<Rightarrow> invoke f [] w
                | None \<Rightarrow>
                    if c = ''TimeService'' \<and> name = ''getCurrentDate'' then getCurrentDate w
                    else (Inl TypeError, w))
           | Some (DateObj d) \<Rightarrow>
               if name = ''toISOString'' then
                 (case d of Some s \<Rightarrow> (Inr (JStr s), w) | None \<Rightarrow> (Inl RangeError, w))
               else (Inl TypeError, w)
           | _ \<Rightarrow> (Inl TypeError, w))
      | _ \<Rightarrow> (Inl TypeError, w))"

text \<open>\<^verbatim>\<open>this.key = v\<close> on an instance.\<close>

definition set_field :: "ref \<Rightarrow> string \<Rightarrow> jsval \<Rightarrow> world \<Rightarrow> world" where
  "set_field this k v w =
     (case heap w this of
        Some (Instance c fs) \<Rightarrow>
          w\<lparr>heap := (heap w)(this := Some (Instance c (AList.update k v fs)))\<rparr>
      | _ \<Rightarrow> w)"

text \<open>\<^verbatim>\<open>TimeService\<close> declares no constructor.\<close>

definition TimeService :: LooseClass where
  "TimeService = \<lparr>cname = ''TimeService'', ctor = (\<lambda>this w. (Completes, w))\<rparr>"

text \<open>
  \<^verbatim>\<open>this.currentDate = this.timeService.getCurrentDate().toISOString()\<close>, where
  \<^verbatim>\<open>timeService\<close> is decorated with \<^verbatim>\<open>@Inject('timeService')\<close>.
\<close>

definition Consumer_ctor :: "ref \<Rightarrow> world \<Rightarrow> completion \<times> world" where
  "Consumer_ctor this w =
     (case Inject ''timeService'' w of
        Inl e \<Rightarrow> (Throws e, w)
      | Inr timeService \<Rightarrow>
          (case call_method timeService ''getCurrentDate'' w of
             (Inl e, w1) \<Rightarrow> (Throws e, w1)
           | (Inr d, w1) \<Rightarrow>
               (case call_method d ''toISOString'' w1 of
                  (Inl e, w2) \<Rightarrow> (Throws e, w2)
                | (Inr s, w2) \<Rightarrow> (Completes, set_field this ''currentDate'' s w2))))"

definition Consumer :: LooseClass where
  "Consumer = \<lparr>cname = ''Consumer'', ctor = Consumer_ctor\<rparr>"

text \<open>Reading the field \<^verbatim>\<open>currentDate\<close> of the object \<open>r\<close>.\<close>

definition currentDate :: "ref \<Rightarrow> world \<Rightarrow> jsval" where
  "currentDate r w =
     (case heap w r of
        Some (Instance c fs) \<Rightarrow>
          (case map_of fs ''currentDate'' of Some v \<Rightarrow> v | None \<Rightarrow> JUndefined)
      | _ \<Rightarrow> JUndefined)"

section \<open>Host programs\<close>

text \<open>
  A host program acts on the containers through the two writing methods. A run performs
  the calls in order; a call that throws leaves the world as it was when the exception
  was raised, and the run goes on (the host caught the exception).
\<close>

datatype op =
    Reserve ref string LooseClass
  | Provide ref IContainerProvider

fun step :: "op \<Rightarrow> world \<Rightarrow> world" where
  "step (Reserve c tok target) w = snd (reserve c tok target w)"
| "step (Provide c details) w = snd (provider c details w)"

fun run :: "op list \<Rightarrow> world \<Rightarrow> world" where
  "run [] w = w"
| "run (x # xs) w = run xs (step x w)"


definition keeps_store :: "string \<Rightarrow> LooseClass \<Rightarrow> bool" where
  "keeps_store tok target =
     (\<forall>r w. map_of (entries (providers (snd (ctor target r w)) container)) tok
              = map_of (entries (providers w container)) tok
            \<and> proto (providers (snd (ctor target r w)) container)
              = proto (providers w container))"

definition allocates_forward :: "LooseClass \<Rightarrow> bool" where
  "allocates_forward target = (\<forall>r w. next_ref w \<le> next_ref (snd (ctor target r w)))"

definition returns_nothing :: "LooseClass \<Rightarrow> bool" where
  "returns_nothing target = (\<forall>r w r'. fst (ctor target r w) \<noteq> Returns r')"


text \<open>
  A call that leaves alone the singleton's entry for the token and the prototype of the
  singleton's providers object: a registration under another token, not \<^verbatim>\<open>__proto__\<close>,
  of a class whose constructor leaves them alone; an override of another token, not
  \<^verbatim>\<open>__proto__\<close>, on the singleton; any override on another container.
\<close>

fun op_leaves :: "string \<Rightarrow> op \<Rightarrow> bool" where
  "op_leaves tok (Reserve c tok' target) =
     (tok' \<noteq> tok \<and> tok' \<noteq> ''__proto__'' \<and> keeps_store tok target)"
| "op_leaves tok (Provide c details) =
     (c \<noteq> container \<or> (token details \<noteq> tok \<and> token details \<noteq> ''__proto__''))"

section \<open>The \<^verbatim>\<open>Consumer\<close> test scenario\<close>

text \<open>
  Loading the module of \<^verbatim>\<open>TimeService\<close> and \<^verbatim>\<open>Consumer\<close> applies the two
  \<^verbatim>\<open>Injectable\<close> decorators in declaration order.
\<close>

definition module_loaded :: "string \<Rightarrow> world" where
  "module_loaded clk =
     snd (Injectable ''consumer'' Consumer
       (snd (Injectable ''timeService'' TimeService (init_world clk))))"

text \<open>
  The test double \<^verbatim>\<open>{ getCurrentDate: () => ret }\<close>: the function object and the
  object literal holding it.
\<close>

definition mock_timeService :: "jsval \<Rightarrow> world \<Rightarrow> (ref \<times> ref) \<times> world" where
  "mock_timeService ret w =
     (let (f, w1) = alloc (Function (Arrow ret)) w;
          (m, w2) = alloc (Instance ''Object'' [(''getCurrentDate'', JRef f)]) w1
      in ((f, m), w2))"

text \<open>
  The test: build the double, override \<^verbatim>\<open>timeService\<close> with it on the singleton,
  then \<^verbatim>\<open>new Consumer()\<close>. The result carries the double's function, for the call
  log to be read against; when the override itself throws, the test ends there.
\<close>

definition consumer_test :: "jsval \<Rightarrow> world \<Rightarrow> ref \<times> (error + ref) \<times> world" where
  "consumer_test ret w =
     (let ((f, m), w1) = mock_timeService ret w
      in (case provider container \<lparr>userValue = JRef m, token = ''timeService''\<rparr> w1 of
            (Inl e, w2) \<Rightarrow> (f, Inl e, w2)
          | (Inr u, w2) \<Rightarrow> (f, new_instance Consumer w2)))"

section \<open>Auxiliary facts\<close>

lemmas world_defs =
  init_world_def empty_object_def alloc_def new_instance_def reserve_def provider_def
  Injectable_def Inject_def resolve_def lodash_find_def isArrayLike_def get_length_def
  length_of_def isLength_def put_prop_def inherited_def object_prototype_slot_def
  container_def DAList.update.rep_eq DAList.empty.rep_eq

lemmas consumer_defs =
  TimeService_def Consumer_def Consumer_ctor_def call_method_def invoke_def
  getCurrentDate_def set_field_def currentDate_def module_loaded_def
  mock_timeService_def consumer_test_def

lemma find_eq_map_of:
  "List.find (\<lambda>(key, prov). key = k) ps = map_option (Pair k) (map_of ps k)"
  by (induction ps) auto

lemma lodash_find_map_of:
  "lodash_find w obj tok =
     (if isArrayLike w obj then JUndefined
      else (case map_of (entries obj) tok of Some v \<Rightarrow> v | None \<Rightarrow> JUndefined))"
  by (simp add: lodash_find_def find_eq_map_of split: option.splits)

lemma entries_update:
  "entries (obj\<lparr>own := DAList.update k v (own obj)\<rparr>) = AList.update k v (entries obj)"
  by (simp add: DAList.update.rep_eq)




text \<open>What a successful write with a key other than \<^verbatim>\<open>__proto__\<close> does.\<close>

lemma put_prop_lands:
  assumes "put_prop w obj k v = Inr obj'" and "k \<noteq> ''__proto__''"
  shows "obj' = obj\<lparr>own := DAList.update k v (own obj)\<rparr>"
  using assms
  by (auto simp: put_prop_def inherited_def object_prototype_slot_def
      split: if_splits slot.splits prototype.splits option.splits object.splits)

text \<open>A write to an object with the original prototype cannot fail.\<close>

lemma put_prop_plain:
  assumes "proto obj = ObjectPrototype" and "k \<noteq> ''__proto__''"
  shows "put_prop w obj k v = Inr (obj\<lparr>own := DAList.update k v (own obj)\<rparr>)"
  using assms by (simp add: put_prop_def inherited_def object_prototype_slot_def)


text \<open>A write leaves the entries of the other keys alone.\<close>

lemma put_prop_other:
  assumes "put_prop w obj k v = Inr obj'" and "k \<noteq> tok"
  shows "map_of (entries obj') tok = map_of (entries obj) tok"
  using assms
  by (auto simp: put_prop_def DAList.update.rep_eq update_conv'
      split: if_splits slot.splits jsval.splits)

lemma resolve_entry:
  "map_of (entries (providers w c)) tok = Some v \<Longrightarrow> truthy v \<Longrightarrow>
   \<not> isArrayLike w (providers w c) \<Longrightarrow> resolve c tok w = Inr v"
  by (simp add: resolve_def lodash_find_map_of)


lemma snd_new_instance:
  "snd (new_instance target w)
     = snd (ctor target (next_ref w) (snd (alloc (Instance (cname target) []) w)))"
  by (simp add: new_instance_def alloc_def Let_def split: prod.splits completion.splits)

lemma providers_alloc: "providers (snd (alloc ob w)) = providers w"
  by (simp add: alloc_def Let_def)


lemma provider_other:
  assumes "token details \<noteq> tok \<or> c \<noteq> c'"
  shows "map_of (entries (providers (snd (provider c details w)) c')) tok
           = map_of (entries (providers w c')) tok"
proof (cases "put_prop w (providers w c) (token details) (userValue details)")
  case (Inl e)
  then show ?thesis by (simp add: provider_def)
next
  case (Inr obj)
  show ?thesis
  proof (cases "c = c'")
    case True
    with assms have "token details \<noteq> tok" by simp
    with Inr have "map_of (entries obj) tok = map_of (entries (providers w c)) tok"
      by (rule put_prop_other)
    with Inr True show ?thesis by (simp add: provider_def)
  next
    case False
    with Inr show ?thesis by (simp add: provider_def)
  qed
qed

lemma reserve_other:
  assumes "tok' \<noteq> tok"
  shows "map_of (entries (providers (snd (reserve c tok' target w)) c')) tok
           = map_of (entries (providers (snd (new_instance target w)) c')) tok"
proof (cases "new_instance target w")
  case (Pair res w1)
  show ?thesis
  proof (cases res)
    case (Inl e)
    with Pair show ?thesis by (simp add: reserve_def)
  next
    case (Inr r)
    show ?thesis
    proof (cases "put_prop w1 (providers w1 container) tok' (JRef r)")
      case (Inl e)
      with Pair Inr show ?thesis by (simp add: reserve_def)
    next
      case put: (Inr obj)
      from put assms have "map_of (entries obj) tok = map_of (entries (providers w1 container)) tok"
        by (rule put_prop_other)
      with Pair Inr put show ?thesis by (simp add: reserve_def)
    qed
  qed
qed



text \<open>A write with a key other than \<^verbatim>\<open>__proto__\<close> leaves the prototype alone.\<close>

lemma put_prop_proto:
  assumes "put_prop w obj k v = Inr obj'" and "k \<noteq> ''__proto__''"
  shows "proto obj' = proto obj"
  using put_prop_lands [OF assms] by simp

lemma provider_proto:
  assumes "c \<noteq> c' \<or> token details \<noteq> ''__proto__''"
  shows "proto (providers (snd (provider c details w)) c') = proto (providers w c')"
proof (cases "put_prop w (providers w c) (token details) (userValue details)")
  case (Inl e)
  then show ?thesis by (simp add: provider_def)
next
  case (Inr obj)
  show ?thesis
  proof (cases "c = c'")
    case True
    with assms have "token details \<noteq> ''__proto__''" by simp
    with Inr have "proto obj = proto (providers w c)"
      by (rule put_prop_proto)
    with Inr True show ?thesis by (simp add: provider_def)
  next
    case False
    with Inr show ?thesis by (simp add: provider_def)
  qed
qed

lemma reserve_proto:
  assumes "tok' \<noteq> ''__proto__''"
  shows "proto (providers (snd (reserve c tok' target w)) c')
           = proto (providers (snd (new_instance target w)) c')"
proof (cases "new_instance target w")
  case (Pair res w1)
  show ?thesis
  proof (cases res)
    case (Inl e)
    with Pair show ?thesis by (simp add: reserve_def)
  next
    case (Inr r)
    show ?thesis
    proof (cases "put_prop w1 (providers w1 container) tok' (JRef r)")
      case (Inl e)
      with Pair Inr show ?thesis by (simp add: reserve_def)
    next
      case put: (Inr obj)
      from put assms have "proto obj = proto (providers w1 container)"
        by (rule put_prop_proto)
      with Pair Inr put show ?thesis by (simp add: reserve_def)
    qed
  qed
qed

lemma step_keeps_store:
  assumes "op_leaves tok x"
  shows "map_of (entries (providers (step x w) container)) tok
           = map_of (entries (providers w container)) tok
       \<and> proto (providers (step x w) container) = proto (providers w container)"
proof (cases x)
  case (Reserve c' tok' target)
  with assms have "keeps_store tok target" by simp
  then have "map_of (entries (providers (snd (new_instance target w)) container)) tok
               = map_of (entries (providers w container)) tok
           \<and> proto (providers (snd (new_instance target w)) container)
               = proto (providers w container)"
    by (simp add: snd_new_instance keeps_store_def providers_alloc)
  with Reserve assms show ?thesis by (simp add: reserve_other reserve_proto)
next
  case (Provide c' details)
  with assms show ?thesis by (auto simp: provider_other provider_proto)
qed

lemma run_keeps_store:
  assumes "\<forall>x \<in> set ops. op_leaves tok x"
  shows "map_of (entries (providers (run ops w) container)) tok
           = map_of (entries (providers w container)) tok
       \<and> proto (providers (run ops w) container) = proto (providers w container)"
  using assms
proof (induction ops arbitrary: w)
  case Nil
  then show ?case by simp
next
  case (Cons x xs)
  from Cons.prems have x: "op_leaves tok x" and xs: "\<forall>y \<in> set xs. op_leaves tok y"
    by simp_all
  from Cons.IH [OF xs, of "step x w"] step_keeps_store [OF x, of w] show ?case
    by simp
qed


lemma keeps_store_TimeService: "keeps_store tok TimeService"
  by (simp add: keeps_store_def TimeService_def)

lemma allocates_forward_TimeService: "allocates_forward TimeService"
  by (simp add: allocates_forward_def TimeService_def)

lemma returns_nothing_TimeService: "returns_nothing TimeService"
  by (simp add: returns_nothing_def TimeService_def)

lemma reads_replicate: "reads n tok w = replicate n (Inject tok w)"
  by (induction n) simp_all

section \<open>Writes at a replaced prototype\<close>

text \<open>
  Once the prototype of a providers object has been replaced, a write can be rejected.
  After the module has been loaded, object 1 is the registered \<^verbatim>\<open>Consumer\<close>, whose
  class carries the getter-only accessor \<^verbatim>\<open>timeService\<close>. Made the prototype of the
  providers object of another container, it turns an override of \<^verbatim>\<open>timeService\<close> on
  that container into a \<^verbatim>\<open>TypeError\<close> that stores nothing.
\<close>

lemma provider_rejected_by_accessor:
  "fst (provider 1 \<lparr>userValue = JRef 1, token = ''__proto__''\<rparr> (module_loaded [])) = Inr ()
   \<and> provider 1 \<lparr>userValue = JNum 1, token = ''timeService''\<rparr>
       (snd (provider 1 \<lparr>userValue = JRef 1, token = ''__proto__''\<rparr> (module_loaded [])))
     = (Inl TypeError,
        snd (provider 1 \<lparr>userValue = JRef 1, token = ''__proto__''\<rparr> (module_loaded [])))
   \<and> resolve 1 ''timeService''
       (snd (provider 1 \<lparr>userValue = JRef 1, token = ''__proto__''\<rparr> (module_loaded [])))
     = Inl (Error ''No provider found for timeService'')"
  by (simp add: world_defs consumer_defs Let_def)

text \<open>
  A double whose \<^verbatim>\<open>getCurrentDate\<close> returns an invalid date (object 3 below) is called
  once, and the construction of the \<^verbatim>\<open>Consumer\<close> then throws the \<^verbatim>\<open>RangeError\<close> of
  \<^verbatim>\<open>toISOString\<close>.
\<close>

lemma Consumer_with_invalid_date:
  "fst (snd (consumer_test (JRef 3) (snd (alloc (DateObj None) (module_loaded [])))))
     = Inl RangeError
   \<and> calls (snd (snd (consumer_test (JRef 3) (snd (alloc (DateObj None) (module_loaded []))))))
     = [(fst (consumer_test (JRef 3) (snd (alloc (DateObj None) (module_loaded [])))), [])]"
  by (simp add: world_defs consumer_defs Let_def)

text \<open>
  A constructor that returns an object of its own choice makes \<^verbatim>\<open>new\<close> yield that
  object every time: the class below returns object 0, and two constructions give the
  same reference.
\<close>

lemma new_instance_returned_object:
  "fst (new_instance \<lparr>cname = ''Cached'', ctor = (\<lambda>this w. (Returns 0, w))\<rparr> (init_world []))
     = Inr 0
   \<and> fst (new_instance \<lparr>cname = ''Cached'', ctor = (\<lambda>this w. (Returns 0, w))\<rparr>
            (snd (new_instance \<lparr>cname = ''Cached'', ctor = (\<lambda>this w. (Returns 0, w))\<rparr>
                    (init_world []))))
     = Inr 0"
  by (simp add: world_defs)

text \<open>
  The array-like proviso is needed for registrations as well: with the number 3 stored
  under \<^verbatim>\<open>length\<close>, two registrations under \<^verbatim>\<open>svc\<close> return normally and leave
  one entry for it, and \<^verbatim>\<open>resolve('svc')\<close> throws.
\<close>

lemma reserve_array_like:
  "entries (providers
      (run [Provide container \<lparr>userValue = JNum 3, token = ''length''\<rparr>,
            Reserve container ''svc'' TimeService,
            Reserve container ''svc'' TimeService] (init_world [])) container)
     = [(''length'', JNum 3), (''svc'', JRef 1)]
   \<and> resolve container ''svc''
       (run [Provide container \<lparr>userValue = JNum 3, token = ''length''\<rparr>,
             Reserve container ''svc'' TimeService,
             Reserve container ''svc'' TimeService] (init_world []))
     = Inl (Error ''No provider found for svc'')"
  by (simp add: world_defs TimeService_def)

section \<open>Claims\<close>

text \<open>
  C1 (amended). After \<^verbatim>\<open>provider({token: t, userValue: v})\<close> on a container whose
  providers object has its original prototype, the call returns normally and
  \<^verbatim>\<open>resolve(t)\<close> on that container returns exactly \<open>v\<close> (the same reference when
  \<open>v\<close> is an object), whatever was stored for \<open>t\<close> before, provided \<open>v\<close> is truthy,
  \<open>t\<close> is not \<^verbatim>\<open>__proto__\<close>, and the providers object is not array-like after the
  write.
\<close>

theorem provider_then_resolve:
  assumes "truthy v" and "tok \<noteq> ''__proto__''"
    and "proto (providers w c) = ObjectPrototype"
    and "\<not> isArrayLike (snd (provider c \<lparr>userValue = v, token = tok\<rparr> w))
            (providers (snd (provider c \<lparr>userValue = v, token = tok\<rparr> w)) c)"
  shows "fst (provider c \<lparr>userValue = v, token = tok\<rparr> w) = Inr ()
       \<and> resolve c tok (snd (provider c \<lparr>userValue = v, token = tok\<rparr> w)) = Inr v"
proof -
  let ?obj = "(providers w c)\<lparr>own := DAList.update tok v (own (providers w c))\<rparr>"
  let ?w = "snd (provider c \<lparr>userValue = v, token = tok\<rparr> w)"
  have put: "put_prop w (providers w c) tok v = Inr ?obj"
    using assms(2,3) by (simp add: put_prop_plain)
  then have ok: "provider c \<lparr>userValue = v, token = tok\<rparr> w
                   = (Inr (), w\<lparr>providers := (providers w)(c := ?obj)\<rparr>)"
    by (simp add: provider_def)
  then have "entries (providers ?w c) = AList.update tok v (entries (providers w c))"
    by (simp add: DAList.update.rep_eq)
  then have "map_of (entries (providers ?w c)) tok = Some v"
    by (simp add: update_conv')
  then have "resolve c tok ?w = Inr v"
    using assms(1,4) by (rule resolve_entry)
  with ok show ?thesis by simp
qed

theorem provider_then_resolve_witness:
  "resolve container ''timeService''
     (snd (provider container \<lparr>userValue = JRef 7, token = ''timeService''\<rparr>
        (snd (provider container \<lparr>userValue = JStr ''old'', token = ''timeService''\<rparr>
           (init_world [])))))
   = Inr (JRef 7)"
proof -
  let ?w = "snd (provider container \<lparr>userValue = JStr ''old'', token = ''timeService''\<rparr>
                   (init_world []))"
  have h1: "truthy (JRef 7)" by simp
  have h2: "''timeService'' \<noteq> ''__proto__''" by simp
  have h3: "proto (providers ?w container) = ObjectPrototype"
    by (simp add: world_defs)
  have h4: "\<not> isArrayLike (snd (provider container \<lparr>userValue = JRef 7, token = ''timeService''\<rparr> ?w))
        (providers (snd (provider container \<lparr>userValue = JRef 7, token = ''timeService''\<rparr> ?w)) container)"
    by (simp add: world_defs)
  from provider_then_resolve [OF h1 h2 h3 h4] show ?thesis by simp
qed

text \<open>
  C1 as stated fails for a falsy value: after overriding \<^verbatim>\<open>t\<close> with \<^verbatim>\<open>0\<close> in the
  initial world, the override returns normally and \<^verbatim>\<open>resolve('t')\<close> throws instead of
  returning \<^verbatim>\<open>0\<close>.
\<close>

theorem provider_falsy_counterexample:
  "fst (provider container \<lparr>userValue = JNum 0, token = ''t''\<rparr> (init_world [])) = Inr ()
   \<and> resolve container ''t''
       (snd (provider container \<lparr>userValue = JNum 0, token = ''t''\<rparr> (init_world [])))
     = Inl (Error ''No provider found for t'')"
  by (simp add: world_defs)



text \<open>
  C3 (amended). With \<^verbatim>\<open>timeService\<close> overridden on the singleton, before a
  \<^verbatim>\<open>Consumer\<close> is constructed, by a double whose \<^verbatim>\<open>getCurrentDate\<close> is a
  zero-argument function returning a valid \<^verbatim>\<open>Date\<close> \<open>d\<close>, constructing the
  \<^verbatim>\<open>Consumer\<close> succeeds, its \<^verbatim>\<open>currentDate\<close> is exactly the string
  \<^verbatim>\<open>d.toISOString()\<close>, and during that construction the double's function is called
  exactly once, with no arguments. This holds in every world whose singleton providers
  object is in its ordinary state (original prototype, no \<^verbatim>\<open>length\<close> entry), in
  particular right after the module of \<^verbatim>\<open>TimeService\<close> and \<^verbatim>\<open>Consumer\<close> has been
  loaded.
\<close>

theorem Consumer_with_date_double:
  assumes date: "heap w d = Some (DateObj (Some s))" and old: "d < next_ref w"
    and plain: "proto (providers w container) = ObjectPrototype"
    and nolen: "map_of (entries (providers w container)) ''length'' = None"
  shows "case consumer_test (JRef d) w of
           (f, res, w') \<Rightarrow>
             (\<exists>r. res = Inr r \<and> currentDate r w' = JStr s) \<and> calls w' = calls w @ [(f, [])]"
proof -
  let ?f = "next_ref w"
  let ?m = "Suc (next_ref w)"
  let ?c = "Suc (Suc (next_ref w))"
  let ?mock = "Instance ''Object'' [(''getCurrentDate'', JRef ?f)]"
  define wm where "wm = snd (mock_timeService (JRef d) w)"
  define obj where
    "obj = (providers w container)
             \<lparr>own := DAList.update ''timeService'' (JRef ?m) (own (providers w container))\<rparr>"
  define w2 where "w2 = wm\<lparr>providers := (providers wm)(container := obj)\<rparr>"
  define w3 where "w3 = snd (alloc (Instance (cname Consumer) []) w2)"
  have mock: "mock_timeService (JRef d) w = ((?f, ?m), wm)"
    by (simp add: wm_def mock_timeService_def alloc_def Let_def)
  have pm: "providers wm = providers w"
    by (simp add: wm_def mock_timeService_def alloc_def Let_def)
  have "put_prop wm (providers wm container) ''timeService'' (JRef ?m) = Inr obj"
    using plain by (simp add: pm obj_def put_prop_plain)
  then have prov: "provider container \<lparr>userValue = JRef ?m, token = ''timeService''\<rparr> wm
                     = (Inr (), w2)"
    by (simp add: provider_def w2_def)
  have heap3: "heap w3 = (heap w)(?f := Some (Function (Arrow (JRef d))), ?m := Some ?mock,
                  ?c := Some (Instance ''Consumer'' []))"
    by (simp add: w3_def w2_def wm_def mock_timeService_def alloc_def Let_def Consumer_def)
  have calls3: "calls w3 = calls w"
    by (simp add: w3_def w2_def wm_def mock_timeService_def alloc_def Let_def)
  have store3: "providers w3 container = obj"
    by (simp add: w3_def w2_def alloc_def Let_def)
  have ent: "entries obj = AList.update ''timeService'' (JRef ?m) (entries (providers w container))"
    by (simp add: obj_def DAList.update.rep_eq)
  from ent nolen have "map_of (entries obj) ''length'' = None"
    by (simp add: update_conv')
  moreover from plain have "proto obj = ObjectPrototype"
    by (simp add: obj_def)
  ultimately have nal: "\<not> isArrayLike w3 (providers w3 container)"
    by (simp add: store3 isArrayLike_def get_length_def isLength_def)
  from ent have "map_of (entries (providers w3 container)) ''timeService'' = Some (JRef ?m)"
    by (simp add: store3 update_conv')
  with nal have inj: "Inject ''timeService'' w3 = Inr (JRef ?m)"
    by (simp add: Inject_def resolve_entry)
  have c1: "call_method (JRef ?m) ''getCurrentDate'' w3
              = (Inr (JRef d), w3\<lparr>calls := calls w @ [(?f, [])]\<rparr>)"
    by (simp add: call_method_def invoke_def heap3 calls3)
  have c2: "call_method (JRef d) ''toISOString'' (w3\<lparr>calls := calls w @ [(?f, [])]\<rparr>)
              = (Inr (JStr s), w3\<lparr>calls := calls w @ [(?f, [])]\<rparr>)"
    using date old by (simp add: call_method_def heap3)
  have ctor: "Consumer_ctor ?c w3
                = (Completes, set_field ?c ''currentDate'' (JStr s)
                           (w3\<lparr>calls := calls w @ [(?f, [])]\<rparr>))"
    by (simp add: Consumer_ctor_def inj c1 c2)
  have al: "alloc (Instance (cname Consumer) []) w2 = (?c, w3)"
    by (simp add: w3_def w2_def wm_def mock_timeService_def alloc_def Let_def)
  have new: "new_instance Consumer w2
               = (Inr ?c, set_field ?c ''currentDate'' (JStr s)
                               (w3\<lparr>calls := calls w @ [(?f, [])]\<rparr>))"
    using ctor by (simp add: new_instance_def al) (simp add: Consumer_def)
  have test: "consumer_test (JRef d) w
                = (?f, Inr ?c, set_field ?c ''currentDate'' (JStr s)
                                    (w3\<lparr>calls := calls w @ [(?f, [])]\<rparr>))"
    unfolding consumer_test_def by (subst mock) (simp add: Let_def prov new)
  have "currentDate ?c (set_field ?c ''currentDate'' (JStr s)
                             (w3\<lparr>calls := calls w @ [(?f, [])]\<rparr>)) = JStr s"
    by (simp add: currentDate_def set_field_def heap3)
  moreover have "calls (set_field ?c ''currentDate'' (JStr s)
                          (w3\<lparr>calls := calls w @ [(?f, [])]\<rparr>)) = calls w @ [(?f, [])]"
    by (simp add: set_field_def heap3)
  ultimately show ?thesis by (simp add: test)
qed

theorem Consumer_with_date_double_witness:
  "fst (snd (consumer_test (JRef 2) (module_loaded ''2020-08-12T00:00:00.000Z''))) = Inr 5
   \<and> currentDate 5 (snd (snd (consumer_test (JRef 2) (module_loaded ''2020-08-12T00:00:00.000Z''))))
       = JStr ''2020-08-12T00:00:00.000Z''
   \<and> calls (snd (snd (consumer_test (JRef 2) (module_loaded ''2020-08-12T00:00:00.000Z''))))
       = [(fst (consumer_test (JRef 2) (module_loaded ''2020-08-12T00:00:00.000Z'')), [])]"
proof -
  let ?w = "module_loaded ''2020-08-12T00:00:00.000Z''"
  have h1: "heap ?w 2 = Some (DateObj (Some ''2020-08-12T00:00:00.000Z''))"
    by (simp add: world_defs consumer_defs Let_def)
  have h2: "2 < next_ref ?w"
    by (simp add: world_defs consumer_defs Let_def)
  have h3: "proto (providers ?w container) = ObjectPrototype"
    by (simp add: world_defs consumer_defs Let_def)
  have h4: "map_of (entries (providers ?w container)) ''length'' = None"
    by (simp add: world_defs consumer_defs Let_def)
  have c: "calls ?w = []"
    by (simp add: world_defs consumer_defs Let_def)
  have r: "fst (snd (consumer_test (JRef 2) ?w)) = Inr 5"
    by (simp add: world_defs consumer_defs Let_def)
  from Consumer_with_date_double [OF h1 h2 h3 h4] c r show ?thesis
    by (auto split: prod.splits)
qed

text \<open>
  C3 as stated fails: the constructor calls \<^verbatim>\<open>toISOString()\<close> on what
  \<^verbatim>\<open>getCurrentDate()\<close> returned, and the string \<^verbatim>\<open>'2020-08-12'\<close> has no such method.
  The double's function is called once with no arguments, then the construction throws a
  \<^verbatim>\<open>TypeError\<close>.
\<close>

theorem Consumer_with_string_double_counterexample:
  "fst (snd (consumer_test (JStr ''2020-08-12'') (module_loaded ''2020-01-01T00:00:00.000Z'')))
     = Inl TypeError
   \<and> calls (snd (snd (consumer_test (JStr ''2020-08-12'')
                        (module_loaded ''2020-01-01T00:00:00.000Z''))))
     = [(fst (consumer_test (JStr ''2020-08-12'') (module_loaded ''2020-01-01T00:00:00.000Z'')), [])]"
  by (simp add: world_defs consumer_defs Let_def)




text \<open>
  C5 (amended). The getter installed by \<^verbatim>\<open>Inject(t)\<close> keeps nothing between reads:
  after \<^verbatim>\<open>provider({token: t, userValue: v})\<close> on the singleton, whose providers
  object has its original prototype, every later read of the property returns \<open>v\<close>,
  whatever the property yielded before: right after the override, and after any further
  calls that leave alone the singleton's entry for \<open>t\<close> and the prototype of its
  providers object. This for a truthy \<open>v\<close> and \<open>t\<close> other than \<^verbatim>\<open>__proto__\<close>, the
  providers object not being array-like when it is read.
\<close>

theorem Inject_reads_override:
  assumes "truthy v" and "tok \<noteq> ''__proto__''"
    and "proto (providers w container) = ObjectPrototype"
    and "\<forall>x \<in> set ops. op_leaves tok x"
    and "\<not> isArrayLike (run ops (snd (provider container \<lparr>userValue = v, token = tok\<rparr> w)))
            (providers
               (run ops (snd (provider container \<lparr>userValue = v, token = tok\<rparr> w))) container)"
  shows "fst (provider container \<lparr>userValue = v, token = tok\<rparr> w) = Inr ()
       \<and> reads n tok (run ops (snd (provider container \<lparr>userValue = v, token = tok\<rparr> w)))
           = replicate n (Inr v)
       \<and> proto (providers
             (run ops (snd (provider container \<lparr>userValue = v, token = tok\<rparr> w))) container)
           = ObjectPrototype"
proof -
  let ?obj = "(providers w container)\<lparr>own := DAList.update tok v (own (providers w container))\<rparr>"
  let ?w = "snd (provider container \<lparr>userValue = v, token = tok\<rparr> w)"
  have "put_prop w (providers w container) tok v = Inr ?obj"
    using assms(2,3) by (simp add: put_prop_plain)
  then have ok: "provider container \<lparr>userValue = v, token = tok\<rparr> w
                   = (Inr (), w\<lparr>providers := (providers w)(container := ?obj)\<rparr>)"
    by (simp add: provider_def)
  then have "entries (providers ?w container) = AList.update tok v (entries (providers w container))"
    by (simp add: DAList.update.rep_eq)
  then have "map_of (entries (providers ?w container)) tok = Some v"
    by (simp add: update_conv')
  with assms(4) have "map_of (entries (providers (run ops ?w) container)) tok = Some v"
    by (simp add: run_keeps_store)
  then have "Inject tok (run ops ?w) = Inr v"
    using assms(1,5) by (simp add: Inject_def resolve_entry)
  moreover from ok assms(3) have "proto (providers ?w container) = ObjectPrototype"
    by simp
  with assms(4) have "proto (providers (run ops ?w) container) = ObjectPrototype"
    by (simp add: run_keeps_store)
  ultimately show ?thesis using ok by (simp add: reads_replicate)
qed

theorem Inject_reads_override_witness:
  "Inject ''timeService'' (init_world []) = Inl (Error ''No provider found for timeService'')
   \<and> reads 2 ''timeService''
       (run [Reserve container ''other'' TimeService,
             Provide container \<lparr>userValue = JNum 5, token = ''x''\<rparr>]
          (snd (provider container \<lparr>userValue = JStr ''mock'', token = ''timeService''\<rparr>
                  (init_world []))))
     = [Inr (JStr ''mock''), Inr (JStr ''mock'')]"
proof -
  let ?ops = "[Reserve container ''other'' TimeService,
               Provide container \<lparr>userValue = JNum 5, token = ''x''\<rparr>]"
  let ?w = "run ?ops (snd (provider container \<lparr>userValue = JStr ''mock'', token = ''timeService''\<rparr>
                             (init_world [])))"
  have h1: "truthy (JStr ''mock'')" by simp
  have h2: "''timeService'' \<noteq> ''__proto__''" by simp
  have h3: "proto (providers (init_world []) container) = ObjectPrototype"
    by (simp add: world_defs)
  have h4: "\<forall>x \<in> set ?ops. op_leaves ''timeService'' x"
    by (simp add: keeps_store_TimeService)
  have h5: "\<not> isArrayLike ?w (providers ?w container)"
    by (simp add: world_defs TimeService_def)
  have "Inject ''timeService'' (init_world []) = Inl (Error ''No provider found for timeService'')"
    by (simp add: world_defs)
  with Inject_reads_override [OF h1 h2 h3 h4 h5, of 2] show ?thesis
    by (simp add: numeral_2_eq_2)
qed

text \<open>
  C5 as stated fails for a falsy value: a property that read an object before the
  override throws once \<^verbatim>\<open>t\<close> is overridden with \<^verbatim>\<open>false\<close>, instead of returning
  \<^verbatim>\<open>false\<close>.
\<close>

theorem Inject_falsy_counterexample:
  "Inject ''t'' (snd (provider container \<lparr>userValue = JRef 1, token = ''t''\<rparr> (init_world [])))
     = Inr (JRef 1)
   \<and> Inject ''t''
       (snd (provider container \<lparr>userValue = JBool False, token = ''t''\<rparr>
          (snd (provider container \<lparr>userValue = JRef 1, token = ''t''\<rparr> (init_world [])))))
     = Inl (Error ''No provider found for t'')"
  by (simp add: world_defs)

text \<open>
  C6 (amended). Consecutive reads of an \<^verbatim>\<open>Inject(t)\<close>-decorated property with no
  container mutation in between all have the same outcome; when the singleton holds a
  truthy entry for \<open>t\<close> and its providers object is not array-like, every read returns
  that stored value (for an object, the same reference).
\<close>

theorem Inject_rereads:
  assumes "map_of (entries (providers w container)) tok = Some v" and "truthy v"
    and "\<not> isArrayLike w (providers w container)"
  shows "reads n tok w = replicate n (Inr v) \<and> reads n tok w = replicate n (Inject tok w)"
proof -
  from assms have "Inject tok w = Inr v"
    by (simp add: Inject_def resolve_entry)
  then show ?thesis by (simp add: reads_replicate)
qed

theorem Inject_rereads_witness:
  "reads 3 ''timeService'' (module_loaded ''2020-01-01T00:00:00.000Z'')
     = [Inr (JRef 0), Inr (JRef 0), Inr (JRef 0)]"
proof -
  let ?w = "module_loaded ''2020-01-01T00:00:00.000Z''"
  have h1: "map_of (entries (providers ?w container)) ''timeService'' = Some (JRef 0)"
    by (simp add: world_defs consumer_defs Let_def)
  have h2: "truthy (JRef 0)" by simp
  have h3: "\<not> isArrayLike ?w (providers ?w container)"
    by (simp add: world_defs consumer_defs Let_def)
  from Inject_rereads [OF h1 h2 h3, of 3] show ?thesis
    by (simp add: numeral_3_eq_3)
qed

text \<open>
  C6 as stated fails when the entry is falsy: with the empty string stored under
  \<^verbatim>\<open>t\<close>, the token has an entry, and each read throws instead of returning it.
\<close>

theorem Inject_rereads_falsy_counterexample:
  "map_of (entries (providers
       (snd (provider container \<lparr>userValue = JStr [], token = ''t''\<rparr> (init_world [])))
       container)) ''t''
     = Some (JStr [])
   \<and> reads 2 ''t''
       (snd (provider container \<lparr>userValue = JStr [], token = ''t''\<rparr> (init_world [])))
     = [Inl (Error ''No provider found for t''), Inl (Error ''No provider found for t'')]"
  by (simp add: world_defs numeral_2_eq_2)









text \<open>
  C9 (amended). \<^verbatim>\<open>resolve\<close> decides by the truthiness of the value \<^verbatim>\<open>find\<close>
  returned, not by the existence of the key: when the providers object holds an entry
  \<open>v\<close> for the token, \<^verbatim>\<open>resolve\<close> returns \<open>v\<close> exactly when \<open>v\<close> is truthy and the
  providers object is not array-like, and throws \<^verbatim>\<open>No provider found for ...\<close>
  otherwise; in particular it throws for every falsy entry.
\<close>

theorem resolve_tests_truthiness:
  assumes "map_of (entries (providers w c)) tok = Some v"
  shows "resolve c tok w =
           (if truthy v \<and> \<not> isArrayLike w (providers w c) then Inr v
            else Inl (Error (''No provider found for '' @ tok)))"
  using assms by (simp add: resolve_def lodash_find_map_of)

theorem resolve_tests_truthiness_witness:
  "resolve container ''t''
     (snd (provider container \<lparr>userValue = JUndefined, token = ''t''\<rparr> (init_world [])))
   = Inl (Error ''No provider found for t'')"
proof -
  let ?w = "snd (provider container \<lparr>userValue = JUndefined, token = ''t''\<rparr> (init_world []))"
  have h: "map_of (entries (providers ?w container)) ''t'' = Some JUndefined"
    by (simp add: world_defs)
  from resolve_tests_truthiness [OF h] show ?thesis by simp
qed

text \<open>
  C9 as stated fails in one direction: with the number 3 stored under \<^verbatim>\<open>length\<close> the
  stored value is truthy, yet lodash iterates the providers object as an array of length
  3 and \<^verbatim>\<open>resolve('length')\<close> throws.
\<close>

theorem resolve_length_counterexample:
  "map_of (entries (providers
       (snd (provider container \<lparr>userValue = JNum 3, token = ''length''\<rparr> (init_world [])))
       container)) ''length''
     = Some (JNum 3)
   \<and> truthy (JNum 3)
   \<and> resolve container ''length''
       (snd (provider container \<lparr>userValue = JNum 3, token = ''length''\<rparr> (init_world [])))
     = Inl (Error ''No provider found for length'')"
  by (simp add: world_defs)



end
